theory Spec2Isabelle
  imports Main
begin

section \<open>JavaScript strings and arrays\<close>

text \<open>
  Strings are lists of characters. The model covers ASCII text: the white space of
  \<^verbatim>\<open>\s\<close> and of \<^verbatim>\<open>trim\<close> is tab, line feed, vertical tab, form feed,
  carriage return and space, and \<^verbatim>\<open>toLowerCase\<close> maps \<^verbatim>\<open>A-Z\<close> to
  \<^verbatim>\<open>a-z\<close>; every other character is left alone.
\<close>

definition isSpace :: "char \<Rightarrow> bool" where
  "isSpace c = (c \<in> {CHR 0x09, CHR 0x0A, CHR 0x0B, CHR 0x0C, CHR 0x0D, CHR 0x20})"

definition lowerChar :: "char \<Rightarrow> char" where
  "lowerChar c =
     (let n = (of_char c :: nat) in if 65 \<le> n \<and> n \<le> 90 then char_of (n + 32) else c)"

definition toLowerCase :: "string \<Rightarrow> string" where
  "toLowerCase s = map lowerChar s"

definition trim :: "string \<Rightarrow> string" where
  "trim s = rev (dropWhile isSpace (rev (dropWhile isSpace s)))"

text \<open>
  \<^verbatim>\<open>s.split(/\s+/)\<close>: the pieces between the maximal runs of white space. A run at
  the start or at the end leaves an empty piece there, and the empty string gives one
  empty piece. \<open>splitFrom inRun cur s\<close> holds the piece being read in \<open>cur\<close>;
  \<open>inRun\<close> says that the last character read was white space.
\<close>

fun splitFrom :: "bool \<Rightarrow> string \<Rightarrow> string \<Rightarrow> string list" where
  "splitFrom inRun cur [] = [cur]"
| "splitFrom inRun cur (c # cs) =
     (if isSpace c then (if inRun then splitFrom True cur cs else cur # splitFrom True [] cs)
      else splitFrom False (cur @ [c]) cs)"

definition splitWhitespace :: "string \<Rightarrow> string list" where
  "splitWhitespace s = splitFrom False [] s"

text \<open>\<^verbatim>\<open>s.includes(k)\<close>: \<open>k\<close> occurs in \<open>s\<close> as a contiguous substring.\<close>

fun isPrefix :: "string \<Rightarrow> string \<Rightarrow> bool" where
  "isPrefix [] s = True"
| "isPrefix (k # ks) [] = False"
| "isPrefix (k # ks) (c # cs) = (k = c \<and> isPrefix ks cs)"

fun includesStr :: "string \<Rightarrow> string \<Rightarrow> bool" where
  "includesStr [] k = (k = [])"
| "includesStr (c # cs) k = (isPrefix k (c # cs) \<or> includesStr cs k)"

text \<open>\<^verbatim>\<open>xs.join(sep)\<close>.\<close>

fun join :: "string \<Rightarrow> string list \<Rightarrow> string" where
  "join sep [] = []"
| "join sep [x] = x"
| "join sep (x # y # ys) = x @ sep @ join sep (y # ys)"

text \<open>\<^verbatim>\<open>a || b\<close> on a string that may be undefined: \<open>b\<close> when \<open>a\<close> is undefined or empty.\<close>

fun orElse :: "string option \<Rightarrow> string \<Rightarrow> string" where
  "orElse None d = d"
| "orElse (Some s) d = (if s = [] then d else s)"

section \<open>Document retrieval: scoring and ranking\<close>

text \<open>A row of \<^verbatim>\<open>documentChunk\<close>, read with its document (\<^verbatim>\<open>include: { document: true }\<close>).\<close>

record chunk =
  documentId :: string
  chunkIndex :: nat
  content :: string
  documentFileName :: string

text \<open>
  The reducer of \<^verbatim>\<open>processRAGQuery\<close>: one step per entry of \<^verbatim>\<open>queryKeywords\<close>,
  adding 1 when the lowercased content includes the keyword.
\<close>

definition queryKeywords :: "string \<Rightarrow> string list" where
  "queryKeywords query = splitWhitespace (toLowerCase query)"

definition scoreOf :: "string list \<Rightarrow> string \<Rightarrow> nat" where
  "scoreOf keywords text =
     foldl (\<lambda>acc keyword. acc + (if includesStr (toLowerCase text) keyword then 1 else 0)) 0 keywords"

text \<open>\<^verbatim>\<open>{ ...chunk, score }\<close> is the pair of the chunk and its score.\<close>

definition scoredChunks :: "string \<Rightarrow> chunk list \<Rightarrow> (chunk \<times> nat) list" where
  "scoredChunks query chunks = map (\<lambda>c. (c, scoreOf (queryKeywords query) (content c))) chunks"

text \<open>
  \<^verbatim>\<open>.filter(c => c.score > 0).sort((a, b) => b.score - a.score)\<close>, and then
  \<^verbatim>\<open>.slice(0, 5)\<close>. \<^verbatim>\<open>Array.prototype.sort\<close> is stable; \<open>sort_key\<close> on the
  negated score is the stable sort by descending score.
\<close>

definition ranked :: "string \<Rightarrow> chunk list \<Rightarrow> (chunk \<times> nat) list" where
  "ranked query chunks =
     sort_key (\<lambda>c. - int (snd c)) (filter (\<lambda>c. snd c > 0) (scoredChunks query chunks))"

definition relevantChunks :: "string \<Rightarrow> chunk list \<Rightarrow> (chunk \<times> nat) list" where
  "relevantChunks query chunks = take 5 (ranked query chunks)"

section \<open>The collaborators and the store\<close>

text \<open>
  An awaited call either rejects with an error, whose message is kept, or resolves.
\<close>

datatype 'a outcome = Throws string | Returns 'a

text \<open>A chat message \<^verbatim>\<open>{ role, content }\<close>.\<close>

datatype message = Message string string

text \<open>One result of the external search: \<^verbatim>\<open>name\<close>, \<^verbatim>\<open>url\<close>, \<^verbatim>\<open>snippet\<close>.\<close>

record webResult =
  name :: string
  url :: string
  snippet :: string

text \<open>
  A row of \<^verbatim>\<open>webSearchCache\<close>, keyed by the query. \<^verbatim>\<open>results\<close> is stored with
  \<^verbatim>\<open>JSON.stringify\<close> and read with \<^verbatim>\<open>JSON.parse\<close>; the model stores the list.
  \<^verbatim>\<open>searchedAt\<close> is in milliseconds.
\<close>

record cacheEntry =
  results :: "webResult list"
  searchedAt :: int
  hitCount :: int

text \<open>
  A row of \<^verbatim>\<open>farmDataFile\<close>. Its \<^verbatim>\<open>columns\<close> are written with
  \<^verbatim>\<open>JSON.stringify\<close> when the file is registered, so that the \<^verbatim>\<open>JSON.parse\<close> of
  \<^verbatim>\<open>processCSVQuery\<close>, whose value is not used, succeeds.
\<close>

record farmDataFile =
  fileId :: string
  fileName :: string
  filePath :: string
  uploadedAt :: int

text \<open>
  The entries of \<^verbatim>\<open>sources\<close>: \<^verbatim>\<open>{ fileName, type: 'Document', chunkIndex }\<close>,
  \<^verbatim>\<open>{ title, url, type: 'Web Search' }\<close> and \<^verbatim>\<open>{ fileName, type: 'CSV Analysis' }\<close>,
  with the \<^verbatim>\<open>priority\<close> that the hybrid path adds.
\<close>

datatype sourceKind = Document string nat | WebSearch string string | CSVAnalysis string

datatype source = Source sourceKind "string option"

fun withPriority :: "string \<Rightarrow> source \<Rightarrow> source" where
  "withPriority p (Source k old) = Source k (Some p)"

record result =
  response :: string
  sources :: "source list"

record queryResult = result +
  queryType :: string

record chatMessage =
  cmSessionId :: string
  cmRole :: string
  cmContent :: string
  cmSources :: "source list option"
  cmQueryType :: "string option"
  cmResponseTime :: "int option"

record queryLog =
  qlSessionId :: string
  qlQuery :: string
  qlQueryType :: string
  qlDocuments :: "string list"
  qlCsvFile :: "string option"
  triggeredWebSearch :: bool

record chatSession =
  title :: string
  updatedAt :: int

text \<open>
  The collaborators. Each answers as a function of the number of calls made to it before
  and of the request, so that two calls with the same request may differ.
  \<^item> \<open>completionsCreate\<close>: \<^verbatim>\<open>zai.chat.completions.create\<close>; it rejects, or resolves
    with \<^verbatim>\<open>choices[0]?.message?.content\<close>, which may be undefined.
  \<^item> \<open>functionsInvoke\<close>: \<^verbatim>\<open>zai.functions.invoke('web_search', { query, num })\<close>; it
    rejects, or resolves with a list or with nothing.
  \<^item> \<open>execAsync\<close>: the generated Python script, which is a function of the file path
    and of the query; it rejects, or resolves with \<^verbatim>\<open>stdout\<close> and \<^verbatim>\<open>stderr\<close>.
  \<^item> \<open>dateNow\<close>: the clock, in milliseconds.
\<close>

record env =
  completionsCreate :: "nat \<Rightarrow> message list \<Rightarrow> string option outcome"
  functionsInvoke :: "nat \<Rightarrow> string \<Rightarrow> nat \<Rightarrow> webResult list option outcome"
  execAsync :: "nat \<Rightarrow> string \<Rightarrow> string \<Rightarrow> (string \<times> string) outcome"
  dateNow :: "nat \<Rightarrow> int"

text \<open>
  The state: the requests made to each collaborator so far, and the tables of the
  database, each table in its storage order. Reads and writes of the database succeed,
  except the update of a row that does not exist.
\<close>

record state =
  completions :: "message list list"
  searches :: "(string \<times> nat) list"
  execs :: "(string \<times> string) list"
  clockReads :: nat
  webSearchCache :: "string \<rightharpoonup> cacheEntry"
  documentChunks :: "chunk list"
  farmDataFiles :: "farmDataFile list"
  chatMessages :: "chatMessage list"
  queryLogs :: "queryLog list"
  chatSessions :: "string \<rightharpoonup> chatSession"

definition chatCompletionsCreate :: "env \<Rightarrow> message list \<Rightarrow> state \<Rightarrow> string option outcome \<times> state" where
  "chatCompletionsCreate zai msgs s =
     (completionsCreate zai (length (completions s)) msgs, s\<lparr>completions := completions s @ [msgs]\<rparr>)"

definition invokeWebSearch :: "env \<Rightarrow> string \<Rightarrow> nat \<Rightarrow> state \<Rightarrow> webResult list option outcome \<times> state" where
  "invokeWebSearch zai q n s =
     (functionsInvoke zai (length (searches s)) q n, s\<lparr>searches := searches s @ [(q, n)]\<rparr>)"

definition runScript :: "env \<Rightarrow> string \<Rightarrow> string \<Rightarrow> state \<Rightarrow> (string \<times> string) outcome \<times> state" where
  "runScript zai path q s =
     (execAsync zai (length (execs s)) path q, s\<lparr>execs := execs s @ [(path, q)]\<rparr>)"

definition now :: "env \<Rightarrow> state \<Rightarrow> int \<times> state" where
  "now zai s = (dateNow zai (clockReads s), s\<lparr>clockReads := Suc (clockReads s)\<rparr>)"

section \<open>The web-search path\<close>

text \<open>
  Modelled from the spec: the schema of \<^verbatim>\<open>webSearchCache\<close> is not among the sources.
  \<^verbatim>\<open>db.webSearchCache.create\<close> passes the query and the results only; the timestamp
  and the hit counter of the new row are the schema's defaults, which the spec gives as the
  time of the fetch and 1.
\<close>

definition createdCacheEntry :: "webResult list \<Rightarrow> int \<Rightarrow> cacheEntry" where
  "createdCacheEntry rs t = \<lparr>results = rs, searchedAt = t, hitCount = 1\<rparr>"

definition searchSeparator :: string where
  "searchSeparator = ''\<newline>\<newline>---\<newline>\<newline>''"

definition webSearchError :: "string \<Rightarrow> result" where
  "webSearchError msg =
     \<lparr>response = ''I encountered an error searching the web: '' @ msg @ ''. Please try again later.'',
      sources = []\<rparr>"

definition noWebResults :: result where
  "noWebResults =
     \<lparr>response = ''I couldn't find any relevant information from web search. Please try rephrasing your question or upload relevant documents.'',
      sources = []\<rparr>"

definition webMessages :: "string \<Rightarrow> webResult list \<Rightarrow> message list" where
  "webMessages query searchResults =
     [Message ''assistant'' ''You are a Smart Dairy AI assistant. Use the web search results to provide accurate, up-to-date information about dairy farming.'',
      Message ''user'' (''Web Search Results:\<newline>\<newline>''
        @ join searchSeparator (map (\<lambda>r. name r @ ''\<newline>'' @ snippet r) searchResults)
        @ ''\<newline>\<newline>Question: '' @ query
        @ ''\<newline>\<newline>Provide a comprehensive answer based on these search results.'')]"

definition webSources :: "webResult list \<Rightarrow> source list" where
  "webSources searchResults = map (\<lambda>r. Source (WebSearch (name r) (url r)) None) searchResults"

text \<open>The part of \<^verbatim>\<open>processWebSearch\<close> after the results are known.\<close>

definition answerFromSearch :: "env \<Rightarrow> string \<Rightarrow> webResult list \<Rightarrow> state \<Rightarrow> result \<times> state" where
  "answerFromSearch zai query searchResults s =
     (if searchResults = [] then (noWebResults, s)
      else (case chatCompletionsCreate zai (webMessages query searchResults) s of
              (Throws msg, s1) \<Rightarrow> (webSearchError msg, s1)
            | (Returns c, s1) \<Rightarrow>
                (\<lparr>response = orElse c ''I could not generate a response from the web search results.'',
                  sources = webSources searchResults\<rparr>, s1)))"

text \<open>
  The \<^verbatim>\<open>else\<close> branch: the external search, then the write of the cache row, an update
  of the existing row or the creation of a new one.
\<close>

definition freshSearch :: "env \<Rightarrow> string \<Rightarrow> cacheEntry option \<Rightarrow> state \<Rightarrow> result \<times> state" where
  "freshSearch zai query cached s =
     (case invokeWebSearch zai (''dairy farming '' @ query) 5 s of
        (Throws msg, s1) \<Rightarrow> (webSearchError msg, s1)
      | (Returns res, s1) \<Rightarrow>
          (let searchResults = (case res of None \<Rightarrow> [] | Some rs \<Rightarrow> rs);
               (t, s2) = now zai s1;
               row = (case cached of
                        Some old \<Rightarrow> old\<lparr>results := searchResults, searchedAt := t, hitCount := 1\<rparr>
                      | None \<Rightarrow> createdCacheEntry searchResults t)
           in answerFromSearch zai query searchResults
                (s2\<lparr>webSearchCache := (webSearchCache s2)(query \<mapsto> row)\<rparr>)))"

definition processWebSearch :: "env \<Rightarrow> string \<Rightarrow> state \<Rightarrow> result \<times> state" where
  "processWebSearch zai query s =
     (case webSearchCache s query of
        None \<Rightarrow> freshSearch zai query None s
      | Some cached \<Rightarrow>
          (let (t, s1) = now zai s in
             if t - searchedAt cached < 3600000
             then answerFromSearch zai query (results cached)
                    (s1\<lparr>webSearchCache := (webSearchCache s1)(query \<mapsto> cached\<lparr>hitCount := hitCount cached + 1\<rparr>)\<rparr>)
             else freshSearch zai query (Some cached) s1))"

section \<open>The document path\<close>

text \<open>\<^verbatim>\<open>db.documentChunk.findMany({ where: { documentId: { in: documentIds } }, take: 20 })\<close>.\<close>

definition findChunks :: "string list \<Rightarrow> state \<Rightarrow> chunk list" where
  "findChunks documentIds s = take 20 (filter (\<lambda>c. documentId c \<in> set documentIds) (documentChunks s))"

definition ragMessages :: "string \<Rightarrow> (chunk \<times> nat) list \<Rightarrow> message list" where
  "ragMessages query relevant =
     [Message ''assistant'' ''You are a Smart Dairy AI assistant specializing in dairy farming. Use the provided document excerpts to answer the user's question accurately. If the information is insufficient, acknowledge this limitation.'',
      Message ''user'' (''Context from dairy farm manuals and scientific papers:\<newline>\<newline>''
        @ join searchSeparator (map (\<lambda>c. content (fst c)) relevant)
        @ ''\<newline>\<newline>Question: '' @ query
        @ ''\<newline>\<newline>Provide a comprehensive answer based on the context above. Cite sources when possible.'')]"

definition ragSources :: "(chunk \<times> nat) list \<Rightarrow> source list" where
  "ragSources relevant =
     map (\<lambda>c. Source (Document (documentFileName (fst c)) (chunkIndex (fst c))) None) relevant"

definition processRAGQuery :: "env \<Rightarrow> string \<Rightarrow> string list \<Rightarrow> state \<Rightarrow> result \<times> state" where
  "processRAGQuery zai query documentIds s =
     (let chunks = findChunks documentIds s in
        if chunks = [] then processWebSearch zai query s
        else (let relevant = relevantChunks query chunks in
                if relevant = [] then processWebSearch zai query s
                else (case chatCompletionsCreate zai (ragMessages query relevant) s of
                        (Throws msg, s1) \<Rightarrow> processWebSearch zai query s1
                      | (Returns c, s1) \<Rightarrow>
                          (\<lparr>response = orElse c ''I could not generate a response from the documents.'',
                            sources = ragSources relevant\<rparr>, s1))))"

section \<open>The hybrid path\<close>

definition hybridMessages :: "string \<Rightarrow> string \<Rightarrow> string \<Rightarrow> message list" where
  "hybridMessages query ragResponse webResponse =
     [Message ''assistant'' ''You are a Smart Dairy AI assistant. Combine information from both uploaded documents and web search to provide comprehensive answers.'',
      Message ''user'' (''Document-based Answer:\<newline>'' @ ragResponse
        @ ''\<newline>\<newline>Web Search Answer:\<newline>'' @ webResponse
        @ ''\<newline>\<newline>Original Question: '' @ query
        @ ''\<newline>\<newline>Synthesize these answers into a comprehensive response that draws from both sources when applicable.'')]"

definition processHybridQuery :: "env \<Rightarrow> string \<Rightarrow> string list \<Rightarrow> state \<Rightarrow> result \<times> state" where
  "processHybridQuery zai query documentIds s =
     (let (ragResult, s1) = processRAGQuery zai query documentIds s;
          (webResult, s2) = processWebSearch zai query s1;
          combinedSources = map (withPriority ''high'') (sources ragResult)
                          @ map (withPriority ''medium'') (sources webResult)
      in case chatCompletionsCreate zai
                (hybridMessages query (response ragResult) (response webResult)) s2 of
           (Throws msg, s3) \<Rightarrow> processWebSearch zai query s3
         | (Returns c, s3) \<Rightarrow>
             (\<lparr>response = orElse c (response ragResult), sources = combinedSources\<rparr>, s3))"

section \<open>The CSV path\<close>

text \<open>
  \<^verbatim>\<open>db.farmDataFile.findFirst({ where: { id: { in: csvFileIds } }, orderBy: { uploadedAt: 'desc' } })\<close>:
  the first row of the matching rows in descending order of \<^verbatim>\<open>uploadedAt\<close>. Among rows
  with the same \<^verbatim>\<open>uploadedAt\<close> the model takes the storage order.
\<close>

definition findFirstFarmDataFile :: "string list \<Rightarrow> state \<Rightarrow> farmDataFile option" where
  "findFirstFarmDataFile csvFileIds s =
     (case sort_key (\<lambda>f. - uploadedAt f) (filter (\<lambda>f. fileId f \<in> set csvFileIds) (farmDataFiles s)) of
        [] \<Rightarrow> None
      | f # rest \<Rightarrow> Some f)"

definition csvError :: "string \<Rightarrow> result" where
  "csvError msg =
     \<lparr>response = ''I encountered an error analyzing your farm data: '' @ msg @ ''. Please check that the file is properly formatted.'',
      sources = []\<rparr>"

definition noFarmData :: result where
  "noFarmData =
     \<lparr>response = ''I don't have any farm data files to analyze. Please upload CSV or Excel files from your herd management software.'',
      sources = []\<rparr>"

definition csvMessages :: "string \<Rightarrow> string \<Rightarrow> message list" where
  "csvMessages query analysisResult =
     [Message ''assistant'' ''You are a dairy farm data analyst. Interpret the data analysis results and provide clear, actionable insights for dairy producers.'',
      Message ''user'' (''User Query: '' @ query @ ''\<newline>\<newline>Data Analysis Results:\<newline>'' @ analysisResult
        @ ''\<newline>\<newline>Please explain these results in clear, practical terms for a dairy farmer.'')]"

definition processCSVQuery :: "env \<Rightarrow> string \<Rightarrow> string list \<Rightarrow> state \<Rightarrow> result \<times> state" where
  "processCSVQuery zai query csvFileIds s =
     (case findFirstFarmDataFile csvFileIds s of
        None \<Rightarrow> (noFarmData, s)
      | Some file \<Rightarrow>
          (case runScript zai (filePath file) query s of
             (Throws msg, s1) \<Rightarrow> (csvError msg, s1)
           | (Returns (stdout, stderr), s1) \<Rightarrow>
               (let analysisResult = (if stdout = [] then stderr else stdout) in
                  case chatCompletionsCreate zai (csvMessages query analysisResult) s1 of
                    (Throws msg, s2) \<Rightarrow> (csvError msg, s2)
                  | (Returns c, s2) \<Rightarrow>
                      (\<lparr>response = orElse c analysisResult,
                        sources = [Source (CSVAnalysis (fileName file)) None]\<rparr>, s2))))"

section \<open>Classification and dispatch\<close>

fun showNat :: "nat \<Rightarrow> string" where
  "showNat n =
     (if n < 10 then [char_of (48 + n)] else showNat (n div 10) @ [char_of (48 + n mod 10)])"

definition classifierMessages :: "string \<Rightarrow> nat \<Rightarrow> nat \<Rightarrow> message list" where
  \<open>classifierMessages query documentCount csvCount =
     [Message ''assistant'' ''You are a query routing assistant. Respond with ONLY one word.'',
      Message ''user'' (''Analyze this query and determine the best approach:\<newline>\<newline>Query: "'' @ query
        @ ''"\<newline>\<newline>Available resources:\<newline>- '' @ showNat documentCount
        @ '' PDF documents (dairy manuals, scientific papers)\<newline>- '' @ showNat csvCount
        @ '' CSV/Excel files (farm data)\<newline>\<newline>Determine if the query needs:\<newline>''
        @ ''1. CSV/Excel data analysis (keywords: cow, milk, production, average, data, file, csv, excel, herd, yield)\<newline>''
        @ ''2. RAG from documents (dairy farming domain knowledge)\<newline>''
        @ ''3. Web search (current information, latest trends)\<newline>''
        @ ''4. Hybrid approach (both documents and web search)\<newline>''
        @ ''5. General chat (no specific resources needed)\<newline>\<newline>''
        @ ''Respond with ONLY one word: csv_analysis, rag, web_search, hybrid, or general'')]\<close>

text \<open>
  \<^verbatim>\<open>completion.choices[0]?.message?.content?.trim().toLowerCase() || 'general'\<close>, and
  \<^verbatim>\<open>'general'\<close> in the \<^verbatim>\<open>catch\<close>.
\<close>

definition analyzeQueryType :: "env \<Rightarrow> string \<Rightarrow> string list \<Rightarrow> string list \<Rightarrow> state \<Rightarrow> string \<times> state" where
  "analyzeQueryType zai query documentIds csvFileIds s =
     (case chatCompletionsCreate zai
             (classifierMessages query (length documentIds) (length csvFileIds)) s of
        (Throws msg, s1) \<Rightarrow> (''general'', s1)
      | (Returns c, s1) \<Rightarrow> (orElse (map_option (\<lambda>x. toLowerCase (trim x)) c) ''general'', s1))"

text \<open>\<^verbatim>\<open>directChat\<close> has no \<^verbatim>\<open>catch\<close>: a rejected completion is passed on.\<close>

definition directChat :: "env \<Rightarrow> string \<Rightarrow> state \<Rightarrow> string outcome \<times> state" where
  "directChat zai query s =
     (case chatCompletionsCreate zai
             [Message ''assistant'' ''You are a helpful Smart Dairy AI assistant specializing in dairy farming. Provide helpful, accurate information about dairy operations, breeding, nutrition, management, and best practices.'',
              Message ''user'' query] s of
        (Throws msg, s1) \<Rightarrow> (Throws msg, s1)
      | (Returns c, s1) \<Rightarrow> (Returns (orElse c ''I could not generate a response.''), s1))"

definition labelled :: "string \<Rightarrow> result \<times> state \<Rightarrow> queryResult outcome \<times> state" where
  "labelled ty rs =
     (Returns \<lparr>response = response (fst rs), sources = sources (fst rs), queryType = ty\<rparr>, snd rs)"

definition processQuery :: "env \<Rightarrow> string \<Rightarrow> string list \<Rightarrow> string list \<Rightarrow> state \<Rightarrow> queryResult outcome \<times> state" where
  "processQuery zai query documentIds csvFileIds s =
     (let (ty, s1) = analyzeQueryType zai query documentIds csvFileIds s in
        if ty = ''csv_analysis'' then labelled ''csv_analysis'' (processCSVQuery zai query csvFileIds s1)
        else if ty = ''rag'' then labelled ''rag'' (processRAGQuery zai query documentIds s1)
        else if ty = ''web_search'' then labelled ''web_search'' (processWebSearch zai query s1)
        else if ty = ''hybrid'' then labelled ''hybrid'' (processHybridQuery zai query documentIds s1)
        else (case directChat zai query s1 of
                (Throws msg, s2) \<Rightarrow> (Throws msg, s2)
              | (Returns r, s2) \<Rightarrow> (Returns \<lparr>response = r, sources = [], queryType = ''general''\<rparr>, s2)))"

section \<open>The chat endpoint\<close>

record chatRequest =
  message :: string
  sessionId :: string
  documents :: "string list"
  csvFiles :: "string list"

datatype httpResponse =
    Ok200 queryResult
  | BadRequest400 string
  | ServerError500 string string

definition failed :: "string \<Rightarrow> state \<Rightarrow> httpResponse \<times> state" where
  "failed msg s = (ServerError500 ''Failed to process message'' msg, s)"

text \<open>
  \<^verbatim>\<open>POST /api/chat\<close>. \<^verbatim>\<open>responseTime\<close> is kept in milliseconds.
  \<^verbatim>\<open>db.chatSession.update\<close> rejects when the session does not exist; the message
  given for it here stands for the error text of the database client.
  \<^verbatim>\<open>createZAIInstance\<close> is taken to succeed: the client is the parameter \<open>zai\<close>.
\<close>

definition POST :: "env \<Rightarrow> chatRequest \<Rightarrow> state \<Rightarrow> httpResponse \<times> state" where
  "POST zai body s =
     (let (startTime, s0) = now zai s in
        if message body = [] \<or> sessionId body = []
        then (BadRequest400 ''Message and sessionId are required'', s0)
        else
          (let s1 = s0\<lparr>chatMessages := chatMessages s0 @
                      [\<lparr>cmSessionId = sessionId body, cmRole = ''user'', cmContent = message body,
                        cmSources = None, cmQueryType = None, cmResponseTime = None\<rparr>]\<rparr>
           in case processQuery zai (message body) (documents body) (csvFiles body) s1 of
                (Throws msg, s2) \<Rightarrow> failed msg s2
              | (Returns res, s2) \<Rightarrow>
                  (let (endTime, s3) = now zai s2;
                       s4 = s3\<lparr>chatMessages := chatMessages s3 @
                              [\<lparr>cmSessionId = sessionId body, cmRole = ''assistant'',
                                cmContent = response res, cmSources = Some (sources res),
                                cmQueryType = Some (queryType res),
                                cmResponseTime = Some (endTime - startTime)\<rparr>]\<rparr>;
                       s5 = s4\<lparr>queryLogs := queryLogs s4 @
                              [\<lparr>qlSessionId = sessionId body, qlQuery = message body,
                                qlQueryType = queryType res, qlDocuments = documents body,
                                qlCsvFile = (case csvFiles body of [] \<Rightarrow> None | f # fs \<Rightarrow> Some f),
                                triggeredWebSearch =
                                  (queryType res = ''web_search'' \<or> queryType res = ''hybrid'')\<rparr>]\<rparr>;
                       (t, s6) = now zai s5
                   in case chatSessions s6 (sessionId body) of
                        None \<Rightarrow> failed ''Record to update not found.'' s6
                      | Some session \<Rightarrow>
                          (Ok200 res,
                           s6\<lparr>chatSessions := (chatSessions s6)(sessionId body \<mapsto>
                                session\<lparr>updatedAt := t,
                                  title := take 50 (message body)
                                    @ (if length (message body) > 50 then ''...'' else [])\<rparr>)\<rparr>))))"

section \<open>The specification's vocabulary\<close>

text \<open>
  The five strategy labels, under the names the code gives them: tabular analysis,
  document retrieval, web lookup, hybrid and general.
\<close>

definition strategyLabels :: "string list" where
  "strategyLabels = [''csv_analysis'', ''rag'', ''web_search'', ''hybrid'', ''general'']"



text \<open>
  The score as the specification words it: the number of terms of the query that occur
  in the lowercased text, a term counting once however often the query repeats it.
\<close>

definition specScore :: "string \<Rightarrow> string \<Rightarrow> nat" where
  "specScore query text =
     card {t \<in> set (queryKeywords query). includesStr (toLowerCase text) t}"

section \<open>Example runs\<close>

text \<open>
  Collaborators for the examples: the completion client answers its calls from a script,
  in order, and with no content once the script is used up; the external search finds one
  page; the script runner prints a row count; the clock advances by one millisecond at
  each reading.
\<close>

definition scriptedZai :: "string option outcome list \<Rightarrow> env" where
  "scriptedZai script =
     \<lparr>completionsCreate = (\<lambda>n msgs. if n < length script then script ! n else Returns None),
      functionsInvoke = (\<lambda>n q k. Returns (Some
        [\<lparr>name = ''Feeding guide'', url = ''https://example.org/feeding'',
          snippet = ''Feed twice a day''\<rparr>])),
      execAsync = (\<lambda>n path q. Returns (''rows: 3'', [])),
      dateNow = (\<lambda>n. 5000000 + int n)\<rparr>"

definition initialState :: state where
  "initialState =
     \<lparr>completions = [], searches = [], execs = [], clockReads = 0,
      webSearchCache = Map.empty, documentChunks = [], farmDataFiles = [],
      chatMessages = [], queryLogs = [],
      chatSessions = [''s1'' \<mapsto> \<lparr>title = ''New Conversation'', updatedAt = 0\<rparr>]\<rparr>"

definition manualChunk :: "nat \<Rightarrow> string \<Rightarrow> chunk" where
  "manualChunk i text =
     \<lparr>documentId = ''d1'', chunkIndex = i, content = text, documentFileName = ''manual.pdf''\<rparr>"

definition herdChunks :: "chunk list" where
  "herdChunks =
     [manualChunk 0 ''Hay'', manualChunk 1 ''Milk'', manualChunk 2 ''Milk yield'',
      manualChunk 3 ''Cow milk yield'', manualChunk 4 ''Yield'', manualChunk 5 ''Straw'',
      manualChunk 6 ''Cow'', manualChunk 7 ''Milk cow'', manualChunk 8 ''Cow yield'']"

definition herdState :: state where
  "herdState = initialState\<lparr>documentChunks := herdChunks\<rparr>"

definition strawState :: state where
  "strawState = initialState\<lparr>documentChunks := [manualChunk 0 ''Hay'', manualChunk 1 ''Straw'']\<rparr>"

definition longManual :: "chunk list" where
  "longManual = map (\<lambda>i. manualChunk i (if i = 20 then ''Milk yield'' else ''Milk'')) [0..<21]"

definition longManualState :: state where
  "longManualState = initialState\<lparr>documentChunks := longManual\<rparr>"

definition feedingGuide :: webResult where
  "feedingGuide =
     \<lparr>name = ''Feeding guide'', url = ''https://example.org/feeding'', snippet = ''Feed twice a day''\<rparr>"

definition oldPrices :: webResult where
  "oldPrices =
     \<lparr>name = ''Milk prices'', url = ''https://example.org/prices'', snippet = ''Prices rose''\<rparr>"

text \<open>A cache row for \<^verbatim>\<open>milk prices\<close>, fetched at the given time and used 3 times.\<close>

definition cachedState :: "int \<Rightarrow> state" where
  "cachedState fetchedAt =
     initialState\<lparr>webSearchCache :=
       [''milk prices'' \<mapsto> \<lparr>results = [oldPrices], searchedAt = fetchedAt, hitCount = 3\<rparr>]\<rparr>"

definition fileA :: farmDataFile where
  "fileA = \<lparr>fileId = ''A'', fileName = ''herd-2023.csv'', filePath = ''/uploads/1-herd-2023.csv'',
            uploadedAt = 100\<rparr>"

definition fileB :: farmDataFile where
  "fileB = \<lparr>fileId = ''B'', fileName = ''herd-2024.csv'', filePath = ''/uploads/2-herd-2024.csv'',
            uploadedAt = 200\<rparr>"

definition farmState :: state where
  "farmState = initialState\<lparr>farmDataFiles := [fileB, fileA]\<rparr>"

text \<open>
  A chat request whose query matches no chunk of the manual, and the completion client
  classifying it as a document question.
\<close>

definition strawRequest :: chatRequest where
  "strawRequest =
     \<lparr>message = ''milk yield cow'', sessionId = ''s1'', documents = [''d1''], csvFiles = []\<rparr>"

text \<open>
  A completion client that answers the document path and the web-search path and then
  rejects the third call, which in the hybrid path is the synthesis.
\<close>

definition offlineAtSynthesis :: env where
  "offlineAtSynthesis =
     scriptedZai [Returns (Some ''From the manual''), Returns (Some ''From the web''),
                  Throws ''model offline'', Returns (Some ''From the web again'')]"

definition silentAtSynthesis :: env where
  "silentAtSynthesis =
     scriptedZai [Returns (Some ''From the manual''), Returns (Some ''From the web''),
                  Returns None]"

section \<open>Scoring\<close>

lemma foldl_count:
  "foldl (\<lambda>acc k. acc + (if P k then 1 else 0)) a ks = a + length (filter P ks)"
  by (induction ks arbitrary: a) auto

lemma scoreOf_filter:
  "scoreOf keywords text = length (filter (includesStr (toLowerCase text)) keywords)"
  unfolding scoreOf_def by (simp add: foldl_count)

lemma specScore_remdups:
  "specScore query text =
     length (remdups (filter (includesStr (toLowerCase text)) (queryKeywords query)))"
proof -
  have "{t \<in> set (queryKeywords query). includesStr (toLowerCase text) t}
        = set (filter (includesStr (toLowerCase text)) (queryKeywords query))"
    by auto
  then show ?thesis
    unfolding specScore_def by (simp add: length_remdups_card_conv)
qed

text \<open>
  C3, as stated, fails. The query \<^verbatim>\<open>milk milk\<close> has the one term \<^verbatim>\<open>milk\<close>, which
  occurs in the text \<^verbatim>\<open>Milk yield\<close>; the specification's count is 1, and the reducer,
  which runs over both entries of the keyword list, gives 2.
\<close>

theorem score_counts_repeated_terms:
  "scoreOf (queryKeywords ''milk milk'') ''Milk yield'' = 2
   \<and> specScore ''milk milk'' ''Milk yield'' = 1"
  unfolding specScore_remdups by code_simp

text \<open>
  C3, amended. The score of a text is the number of entries of the query's keyword list
  (the lowercased query split at runs of white space, repeated terms kept) that occur as a
  substring of the lowercased text. An entry adds at most 1 however often it occurs in the
  text, so the score is at most the length of the keyword list; a term that the query
  repeats is counted once for each repetition. When the entries are distinct, the score is
  the specification's count of terms.
\<close>

theorem scoreOf_counts_keyword_entries:
  "scoreOf (queryKeywords query) text
     = length (filter (includesStr (toLowerCase text)) (queryKeywords query))
   \<and> scoreOf (queryKeywords query) text \<le> length (queryKeywords query)
   \<and> (distinct (queryKeywords query) \<longrightarrow>
        scoreOf (queryKeywords query) text = specScore query text)"
proof -
  let ?ks = "queryKeywords query" and ?P = "includesStr (toLowerCase text)"
  have a: "scoreOf ?ks text = length (filter ?P ?ks)" by (rule scoreOf_filter)
  have b: "scoreOf ?ks text \<le> length ?ks" unfolding a by (rule length_filter_le)
  have c: "scoreOf ?ks text = specScore query text" if "distinct ?ks"
  proof -
    from that have "distinct (filter ?P ?ks)" by simp
    then have r: "remdups (filter ?P ?ks) = filter ?P ?ks" by (rule distinct_remdups_id)
    show ?thesis by (simp only: a specScore_remdups r)
  qed
  from a b c show ?thesis by blast
qed

theorem scoreOf_counts_keyword_entries_witness:
  "distinct (queryKeywords ''milk yield'')
   \<and> scoreOf (queryKeywords ''milk yield'') ''Milk and more milk'' = 1
   \<and> specScore ''milk yield'' ''Milk and more milk'' = 1"
proof -
  have d: "distinct (queryKeywords ''milk yield'')" by code_simp
  have v: "scoreOf (queryKeywords ''milk yield'') ''Milk and more milk'' = 1" by code_simp
  from scoreOf_counts_keyword_entries [of "''milk yield''" "''Milk and more milk''"] d v
  show ?thesis by simp
qed

section \<open>Ranking\<close>

lemma relevantChunks_Nil_iff:
  "relevantChunks q chunks = [] \<longleftrightarrow> (\<forall>c \<in> set chunks. scoreOf (queryKeywords q) (content c) = 0)"
proof -
  have "sort_key f xs = [] \<longleftrightarrow> xs = []" for f :: "chunk \<times> nat \<Rightarrow> int" and xs
    by (metis length_0_conv length_sort)
  then show ?thesis
    by (auto simp: relevantChunks_def ranked_def scoredChunks_def filter_empty_conv)
qed

lemma relevant_take: "relevantChunks q chunks = take 5 (ranked q chunks)"
  by (simp add: relevantChunks_def)

lemma ranked_sorted: "sorted_wrt (\<lambda>a b. snd b \<le> snd a) (ranked q chunks)"
proof -
  have "sorted (map (\<lambda>c. - int (snd c)) (ranked q chunks))"
    unfolding ranked_def by (rule sorted_sort_key)
  then show ?thesis by (simp add: sorted_map)
qed

lemma ranked_set:
  "set (ranked q chunks) = {x \<in> set (scoredChunks q chunks). 0 < snd x}"
  by (auto simp: ranked_def)

lemma ranked_stable:
  assumes "0 < k"
  shows "filter (\<lambda>x. snd x = k) (ranked q chunks) = filter (\<lambda>x. snd x = k) (scoredChunks q chunks)"
proof -
  have eq: "(\<lambda>x::chunk \<times> nat. snd x = k) = (\<lambda>x. - int (snd x) = - int k)" by auto
  have "filter (\<lambda>x. - int (snd x) = - int k) (ranked q chunks)
        = filter (\<lambda>x. - int (snd x) = - int k) (filter (\<lambda>c. snd c > 0) (scoredChunks q chunks))"
    unfolding ranked_def by (rule sort_key_stable)
  also have "\<dots> = filter (\<lambda>x. - int (snd x) = - int k) (scoredChunks q chunks)"
    using assms by (auto intro: filter_cong)
  finally show ?thesis unfolding eq .
qed

lemma relevant_sorted: "sorted_wrt (\<lambda>a b. snd b \<le> snd a) (relevantChunks q chunks)"
proof -
  have "sorted_wrt (\<lambda>a b. snd b \<le> snd a) (take 5 (ranked q chunks) @ drop 5 (ranked q chunks))"
    using ranked_sorted by simp
  then show ?thesis unfolding relevant_take sorted_wrt_append by blast
qed

lemma relevant_members:
  assumes "x \<in> set (relevantChunks q chunks)"
  shows "fst x \<in> set chunks \<and> snd x = scoreOf (queryKeywords q) (content (fst x)) \<and> 0 < snd x"
proof -
  from assms have "x \<in> set (ranked q chunks)" unfolding relevant_take by (rule in_set_takeD)
  then show ?thesis by (auto simp: ranked_set scoredChunks_def)
qed

lemma relevant_stable:
  "\<exists>rest. filter (\<lambda>x. snd x = k) (scoredChunks q chunks)
            = filter (\<lambda>x. snd x = k) (relevantChunks q chunks) @ rest"
proof (cases "0 < k")
  case True
  have "filter (\<lambda>x. snd x = k) (ranked q chunks)
        = filter (\<lambda>x. snd x = k) (take 5 (ranked q chunks)) @ filter (\<lambda>x. snd x = k) (drop 5 (ranked q chunks))"
    by (metis append_take_drop_id filter_append)
  with ranked_stable [OF True, of q chunks] show ?thesis
    unfolding relevant_take by metis
next
  case False
  then have "filter (\<lambda>x. snd x = k) (relevantChunks q chunks) = []"
    by (auto simp: filter_empty_conv dest: relevant_members)
  then show ?thesis by simp
qed

lemma relevant_top:
  assumes "x \<in> set (scoredChunks q chunks)" "0 < snd x" "x \<notin> set (relevantChunks q chunks)"
    and "y \<in> set (relevantChunks q chunks)"
  shows "snd x \<le> snd y"
proof -
  from assms(1,2) have "x \<in> set (ranked q chunks)"
    by (simp add: ranked_set)
  then have "x \<in> set (take 5 (ranked q chunks)) \<union> set (drop 5 (ranked q chunks))"
    by (metis append_take_drop_id set_append)
  with assms(3) have x: "x \<in> set (drop 5 (ranked q chunks))"
    unfolding relevant_take by blast
  have "sorted_wrt (\<lambda>a b. snd b \<le> snd a) (take 5 (ranked q chunks) @ drop 5 (ranked q chunks))"
    using ranked_sorted by simp
  with x assms(4) show ?thesis unfolding relevant_take sorted_wrt_append by blast
qed

lemma processRAGQuery_answers:
  assumes "relevantChunks q (findChunks ids s) \<noteq> []"
    and "completionsCreate zai (length (completions s)) (ragMessages q (relevantChunks q (findChunks ids s))) = Returns c"
  shows "fst (processRAGQuery zai q ids s)
     = \<lparr>response = orElse c ''I could not generate a response from the documents.'',
        sources = ragSources (relevantChunks q (findChunks ids s))\<rparr>"
proof -
  from assms(1) have "findChunks ids s \<noteq> []"
    by (auto simp: relevantChunks_Nil_iff)
  with assms show ?thesis
    by (simp add: processRAGQuery_def chatCompletionsCreate_def Let_def)
qed

lemma answerFromSearch_sources:
  "src \<in> set (sources (fst (answerFromSearch zai q rs s))) \<Longrightarrow> \<exists>t u. src = Source (WebSearch t u) None"
  by (auto simp: answerFromSearch_def chatCompletionsCreate_def noWebResults_def webSearchError_def
        webSources_def split: if_splits outcome.splits)

lemma freshSearch_sources:
  "src \<in> set (sources (fst (freshSearch zai q cached s))) \<Longrightarrow> \<exists>t u. src = Source (WebSearch t u) None"
  by (auto simp: freshSearch_def invokeWebSearch_def now_def webSearchError_def Let_def
        dest: answerFromSearch_sources split: outcome.splits)

lemma processWebSearch_sources:
  "src \<in> set (sources (fst (processWebSearch zai q s))) \<Longrightarrow> \<exists>t u. src = Source (WebSearch t u) None"
  by (auto simp: processWebSearch_def now_def Let_def
        dest: answerFromSearch_sources freshSearch_sources split: option.splits if_splits)

lemma processRAGQuery_sources:
  assumes "src \<in> set (sources (fst (processRAGQuery zai q ids s)))"
  shows "(\<exists>t u. src = Source (WebSearch t u) None)
       \<or> (\<exists>x \<in> set (relevantChunks q (findChunks ids s)).
             src = Source (Document (documentFileName (fst x)) (chunkIndex (fst x))) None)"
  using assms
  by (auto simp: processRAGQuery_def chatCompletionsCreate_def ragSources_def Let_def
        dest: processWebSearch_sources split: if_splits outcome.splits)

lemma relevant_length:
  "length (relevantChunks q chunks)
     = min 5 (length (filter (\<lambda>x. 0 < snd x) (scoredChunks q chunks)))"
  by (simp add: relevantChunks_def ranked_def min.commute)

lemma relevant_rest:
  "\<exists>rest. sorted_wrt (\<lambda>a b. snd b \<le> snd a) (relevantChunks q chunks @ rest)
        \<and> (\<forall>k. 0 < k \<longrightarrow>
              filter (\<lambda>x. snd x = k) (relevantChunks q chunks @ rest)
                = filter (\<lambda>x. snd x = k) (scoredChunks q chunks))
        \<and> (\<forall>x \<in> set rest. 0 < snd x)
        \<and> length (relevantChunks q chunks @ rest)
             = length (filter (\<lambda>x. 0 < snd x) (scoredChunks q chunks))"
proof -
  let ?rest = "drop 5 (ranked q chunks)"
  have whole: "relevantChunks q chunks @ ?rest = ranked q chunks"
    unfolding relevant_take by (rule append_take_drop_id)
  have a: "sorted_wrt (\<lambda>a b. snd b \<le> snd a) (relevantChunks q chunks @ ?rest)"
    unfolding whole by (rule ranked_sorted)
  have b: "\<forall>k. 0 < k \<longrightarrow>
              filter (\<lambda>x. snd x = k) (relevantChunks q chunks @ ?rest)
                = filter (\<lambda>x. snd x = k) (scoredChunks q chunks)"
    unfolding whole using ranked_stable by blast
  have c: "\<forall>x \<in> set ?rest. 0 < snd x"
  proof
    fix x assume "x \<in> set ?rest"
    then have "x \<in> set (ranked q chunks)" by (rule in_set_dropD)
    then show "0 < snd x" by (simp add: ranked_set)
  qed
  have d: "length (relevantChunks q chunks @ ?rest)
             = length (filter (\<lambda>x. 0 < snd x) (scoredChunks q chunks))"
    unfolding whole by (simp add: ranked_def)
  from a b c d show ?thesis by blast
qed

text \<open>
  C4. In the document path, with the fetched chunks scored against the query: every kept
  chunk is one of the fetched chunks and has a score above 0, so a chunk scoring 0 is
  discarded; the kept chunks are in descending order of score; among chunks of one score
  the kept ones are the first of them in the fetched order (the sort is stable); at most
  5 are kept, and a chunk with a positive score that is not kept scores no more than any
  kept one. The top 5 are kept: the number of kept chunks is exactly the smaller of 5 and
  the number of fetched chunks with a positive score, and the kept list is the beginning
  of the list of all those chunks in descending order of score, chunks of one score in
  their fetched order. When the path answers from the documents (a chunk is kept and the completion
  call returns), the returned sources are one document source per kept chunk, in ranked
  order, with the file name of its document and its chunk index. In every run, a returned
  source is the document source of a kept chunk or, when the path was left for the
  web-search path, a web source: a chunk scoring 0 gives no source.
\<close>

theorem processRAGQuery_ranking:
  "(\<forall>x \<in> set (relevantChunks q (findChunks ids s)).
       fst x \<in> set (findChunks ids s)
       \<and> snd x = scoreOf (queryKeywords q) (content (fst x)) \<and> 0 < snd x)
   \<and> sorted_wrt (\<lambda>a b. snd b \<le> snd a) (relevantChunks q (findChunks ids s))
   \<and> (\<forall>k. \<exists>rest. filter (\<lambda>x. snd x = k) (scoredChunks q (findChunks ids s))
          = filter (\<lambda>x. snd x = k) (relevantChunks q (findChunks ids s)) @ rest)
   \<and> length (relevantChunks q (findChunks ids s)) \<le> 5
   \<and> (\<forall>x \<in> set (scoredChunks q (findChunks ids s)).
         0 < snd x \<and> x \<notin> set (relevantChunks q (findChunks ids s)) \<longrightarrow>
         (\<forall>y \<in> set (relevantChunks q (findChunks ids s)). snd x \<le> snd y))
   \<and> (relevantChunks q (findChunks ids s) \<noteq> []
        \<and> completionsCreate zai (length (completions s))
             (ragMessages q (relevantChunks q (findChunks ids s))) = Returns c \<longrightarrow>
        sources (fst (processRAGQuery zai q ids s))
          = map (\<lambda>x. Source (Document (documentFileName (fst x)) (chunkIndex (fst x))) None)
              (relevantChunks q (findChunks ids s)))
   \<and> (\<forall>src \<in> set (sources (fst (processRAGQuery zai q ids s))).
         (\<exists>t u. src = Source (WebSearch t u) None)
         \<or> (\<exists>x \<in> set (relevantChunks q (findChunks ids s)).
               src = Source (Document (documentFileName (fst x)) (chunkIndex (fst x))) None))
   \<and> length (relevantChunks q (findChunks ids s))
       = min 5 (length (filter (\<lambda>x. 0 < snd x) (scoredChunks q (findChunks ids s))))
   \<and> (\<exists>rest. sorted_wrt (\<lambda>a b. snd b \<le> snd a) (relevantChunks q (findChunks ids s) @ rest)
        \<and> (\<forall>k. 0 < k \<longrightarrow>
              filter (\<lambda>x. snd x = k) (relevantChunks q (findChunks ids s) @ rest)
                = filter (\<lambda>x. snd x = k) (scoredChunks q (findChunks ids s)))
        \<and> (\<forall>x \<in> set rest. 0 < snd x)
        \<and> length (relevantChunks q (findChunks ids s) @ rest)
             = length (filter (\<lambda>x. 0 < snd x) (scoredChunks q (findChunks ids s))))"
proof -
  let ?rel = "relevantChunks q (findChunks ids s)"
  have a: "\<forall>x \<in> set ?rel. fst x \<in> set (findChunks ids s)
       \<and> snd x = scoreOf (queryKeywords q) (content (fst x)) \<and> 0 < snd x"
    using relevant_members by blast
  have b: "sorted_wrt (\<lambda>a b. snd b \<le> snd a) ?rel" by (rule relevant_sorted)
  have c: "\<forall>k. \<exists>rest. filter (\<lambda>x. snd x = k) (scoredChunks q (findChunks ids s))
          = filter (\<lambda>x. snd x = k) ?rel @ rest"
    using relevant_stable by blast
  have d: "length ?rel \<le> 5" by (simp add: relevantChunks_def)
  have e: "\<forall>x \<in> set (scoredChunks q (findChunks ids s)).
         0 < snd x \<and> x \<notin> set ?rel \<longrightarrow> (\<forall>y \<in> set ?rel. snd x \<le> snd y)"
    using relevant_top by blast
  have f: "?rel \<noteq> [] \<and> completionsCreate zai (length (completions s)) (ragMessages q ?rel) = Returns c \<longrightarrow>
        sources (fst (processRAGQuery zai q ids s))
          = map (\<lambda>x. Source (Document (documentFileName (fst x)) (chunkIndex (fst x))) None) ?rel"
    using processRAGQuery_answers [where q = q and ids = ids and s = s and zai = zai and c = c]
    by (simp add: ragSources_def)
  have g: "\<forall>src \<in> set (sources (fst (processRAGQuery zai q ids s))).
         (\<exists>t u. src = Source (WebSearch t u) None)
         \<or> (\<exists>x \<in> set ?rel.
               src = Source (Document (documentFileName (fst x)) (chunkIndex (fst x))) None)"
    using processRAGQuery_sources by blast
  have h: "length ?rel
       = min 5 (length (filter (\<lambda>x. 0 < snd x) (scoredChunks q (findChunks ids s))))"
    by (rule relevant_length)
  have i: "\<exists>rest. sorted_wrt (\<lambda>a b. snd b \<le> snd a) (?rel @ rest)
        \<and> (\<forall>k. 0 < k \<longrightarrow>
              filter (\<lambda>x. snd x = k) (?rel @ rest)
                = filter (\<lambda>x. snd x = k) (scoredChunks q (findChunks ids s)))
        \<and> (\<forall>x \<in> set rest. 0 < snd x)
        \<and> length (?rel @ rest)
             = length (filter (\<lambda>x. 0 < snd x) (scoredChunks q (findChunks ids s)))"
    by (rule relevant_rest)
  from a b c d e f g h i show ?thesis by (intro conjI)
qed

theorem processRAGQuery_ranking_witness:
  "relevantChunks ''milk yield cow'' (findChunks [''d1''] herdState) \<noteq> []
   \<and> map snd (scoredChunks ''milk yield cow'' (findChunks [''d1''] herdState))
       = [0, 1, 2, 3, 1, 0, 1, 2, 2]
   \<and> map snd (relevantChunks ''milk yield cow'' (findChunks [''d1''] herdState)) = [3, 2, 2, 2, 1]
   \<and> length (relevantChunks ''milk yield cow'' (findChunks [''d1''] herdState)) = 5
   \<and> sources (fst (processRAGQuery (scriptedZai [Returns (Some ''Answer'')])
                     ''milk yield cow'' [''d1''] herdState))
       = [Source (Document ''manual.pdf'' 3) None, Source (Document ''manual.pdf'' 2) None,
          Source (Document ''manual.pdf'' 7) None, Source (Document ''manual.pdf'' 8) None,
          Source (Document ''manual.pdf'' 1) None]"
proof -
  let ?rel = "relevantChunks ''milk yield cow'' (findChunks [''d1''] herdState)"
  let ?scored = "scoredChunks ''milk yield cow'' (findChunks [''d1''] herdState)"
  let ?zai = "scriptedZai [Returns (Some ''Answer'')]"
  have h1: "?rel \<noteq> []" by code_simp
  have h2: "completionsCreate ?zai (length (completions herdState))
              (ragMessages ''milk yield cow'' ?rel) = Returns (Some ''Answer'')"
    by (simp add: scriptedZai_def herdState_def initialState_def)
  have v0: "map snd ?scored = [0, 1, 2, 3, 1, 0, 1, 2, 2]" by code_simp
  have n: "length (filter (\<lambda>x. 0 < snd x) ?scored) = 7" by code_simp
  have v1: "map snd ?rel = [3, 2, 2, 2, 1]" by code_simp
  have v2: "map (\<lambda>x. Source (Document (documentFileName (fst x)) (chunkIndex (fst x))) None) ?rel
       = [Source (Document ''manual.pdf'' 3) None, Source (Document ''manual.pdf'' 2) None,
          Source (Document ''manual.pdf'' 7) None, Source (Document ''manual.pdf'' 8) None,
          Source (Document ''manual.pdf'' 1) None]"
    by code_simp
  note ranking = processRAGQuery_ranking [where q = "''milk yield cow''" and ids = "[''d1'']"
         and s = herdState and zai = ?zai and c = "Some ''Answer''"]
  from ranking h1 h2
  have src: "sources (fst (processRAGQuery ?zai ''milk yield cow'' [''d1''] herdState))
        = map (\<lambda>x. Source (Document (documentFileName (fst x)) (chunkIndex (fst x))) None) ?rel"
    by blast
  from ranking have "length ?rel = min 5 (length (filter (\<lambda>x. 0 < snd x) ?scored))"
    by blast
  with n have len: "length ?rel = 5" by simp
  from h1 v0 v1 v2 src len show ?thesis by simp
qed

text \<open>
  C5. When no chunk is fetched for the supplied documents, or every fetched chunk scores
  0 against the query, the document path returns exactly what the web-search path
  returns for that query from the same state: the same result and the same effects.
\<close>

theorem processRAGQuery_falls_back:
  assumes "findChunks ids s = []
           \<or> (\<forall>c \<in> set (findChunks ids s). scoreOf (queryKeywords q) (content c) = 0)"
  shows "processRAGQuery zai q ids s = processWebSearch zai q s"
proof -
  from assms have "findChunks ids s = [] \<or> relevantChunks q (findChunks ids s) = []"
    by (simp add: relevantChunks_Nil_iff)
  then show ?thesis by (auto simp: processRAGQuery_def Let_def)
qed

theorem processRAGQuery_falls_back_witness:
  "map (\<lambda>c. scoreOf (queryKeywords ''milk yield cow'') (content c))
       (findChunks [''d1''] strawState) = [0, 0]
   \<and> processRAGQuery (scriptedZai [Returns (Some ''Answer'')]) ''milk yield cow'' [''d1''] strawState
       = processWebSearch (scriptedZai [Returns (Some ''Answer'')]) ''milk yield cow'' strawState
   \<and> sources (fst (processRAGQuery (scriptedZai [Returns (Some ''Answer'')])
                     ''milk yield cow'' [''d1''] strawState))
       = [Source (WebSearch ''Feeding guide'' ''https://example.org/feeding'') None]"
proof -
  have h0: "map (\<lambda>c. scoreOf (queryKeywords ''milk yield cow'') (content c))
       (findChunks [''d1''] strawState) = [0, 0]"
    by code_simp
  have h: "\<forall>c \<in> set (findChunks [''d1''] strawState).
         scoreOf (queryKeywords ''milk yield cow'') (content c) = 0"
  proof
    fix c assume "c \<in> set (findChunks [''d1''] strawState)"
    then have "scoreOf (queryKeywords ''milk yield cow'') (content c)
        \<in> set (map (\<lambda>c. scoreOf (queryKeywords ''milk yield cow'') (content c))
                 (findChunks [''d1''] strawState))"
      by simp
    then show "scoreOf (queryKeywords ''milk yield cow'') (content c) = 0"
      unfolding h0 by simp
  qed
  have v: "sources (fst (processWebSearch (scriptedZai [Returns (Some ''Answer'')])
                     ''milk yield cow'' strawState))
       = [Source (WebSearch ''Feeding guide'' ''https://example.org/feeding'') None]"
    by code_simp
  from processRAGQuery_falls_back [where ids = "[''d1'']" and s = strawState
         and q = "''milk yield cow''" and zai = "scriptedZai [Returns (Some ''Answer'')]"] h
  have "processRAGQuery (scriptedZai [Returns (Some ''Answer'')]) ''milk yield cow'' [''d1''] strawState
       = processWebSearch (scriptedZai [Returns (Some ''Answer'')]) ''milk yield cow'' strawState"
    by blast
  with h0 v show ?thesis by simp
qed

section \<open>The document path reads the first 20 matching chunks only\<close>

lemma chatCompletionsCreate_chunks:
  "chatCompletionsCreate zai msgs (s\<lparr>documentChunks := cs\<rparr>)
     = apsnd (\<lambda>t. t\<lparr>documentChunks := cs\<rparr>) (chatCompletionsCreate zai msgs s)"
  by (simp add: chatCompletionsCreate_def)

lemma answerFromSearch_chunks:
  "answerFromSearch zai q rs (s\<lparr>documentChunks := cs\<rparr>)
     = apsnd (\<lambda>t. t\<lparr>documentChunks := cs\<rparr>) (answerFromSearch zai q rs s)"
  by (simp add: answerFromSearch_def chatCompletionsCreate_def split: outcome.splits)

lemma chunks_commute:
  "(s\<lparr>documentChunks := cs\<rparr>)\<lparr>completions := a\<rparr> = (s\<lparr>completions := a\<rparr>)\<lparr>documentChunks := cs\<rparr>"
  "(s\<lparr>documentChunks := cs\<rparr>)\<lparr>searches := b\<rparr> = (s\<lparr>searches := b\<rparr>)\<lparr>documentChunks := cs\<rparr>"
  "(s\<lparr>documentChunks := cs\<rparr>)\<lparr>clockReads := c\<rparr> = (s\<lparr>clockReads := c\<rparr>)\<lparr>documentChunks := cs\<rparr>"
  "(s\<lparr>documentChunks := cs\<rparr>)\<lparr>webSearchCache := d\<rparr> = (s\<lparr>webSearchCache := d\<rparr>)\<lparr>documentChunks := cs\<rparr>"
  by simp_all

lemma invokeWebSearch_chunks:
  "invokeWebSearch zai q n (s\<lparr>documentChunks := cs\<rparr>)
     = apsnd (\<lambda>t. t\<lparr>documentChunks := cs\<rparr>) (invokeWebSearch zai q n s)"
  by (simp add: invokeWebSearch_def)

lemma now_chunks:
  "now zai (s\<lparr>documentChunks := cs\<rparr>) = apsnd (\<lambda>t. t\<lparr>documentChunks := cs\<rparr>) (now zai s)"
  by (simp add: now_def)

lemma freshSearch_chunks:
  "freshSearch zai q cached (s\<lparr>documentChunks := cs\<rparr>)
     = apsnd (\<lambda>t. t\<lparr>documentChunks := cs\<rparr>) (freshSearch zai q cached s)"
  unfolding freshSearch_def invokeWebSearch_chunks
  by (cases "invokeWebSearch zai (''dairy farming '' @ q) 5 s")
     (simp add: now_chunks chunks_commute answerFromSearch_chunks Let_def
           split: outcome.splits prod.splits)

lemma processWebSearch_chunks:
  "processWebSearch zai q (s\<lparr>documentChunks := cs\<rparr>)
     = apsnd (\<lambda>t. t\<lparr>documentChunks := cs\<rparr>) (processWebSearch zai q s)"
  unfolding processWebSearch_def
  by (simp add: now_chunks chunks_commute answerFromSearch_chunks freshSearch_chunks Let_def
           case_prod_beta split: option.splits)

lemma processRAGQuery_chunks:
  assumes "findChunks ids (s\<lparr>documentChunks := cs\<rparr>) = findChunks ids s"
  shows "processRAGQuery zai q ids (s\<lparr>documentChunks := cs\<rparr>)
     = apsnd (\<lambda>t. t\<lparr>documentChunks := cs\<rparr>) (processRAGQuery zai q ids s)"
  unfolding processRAGQuery_def assms
  by (simp add: processWebSearch_chunks chatCompletionsCreate_chunks Let_def
           split: outcome.splits prod.splits)

text \<open>
  C10. At most 20 chunks are fetched as candidates, and every kept chunk is one of them.
  The rest of the table has no influence: replacing the table of chunks by any table that
  gives the same 20 candidates leaves the result of the document path (answer and sources)
  and all its effects (the requests made to the completion client among them) unchanged.
\<close>

theorem processRAGQuery_first_20:
  "length (findChunks ids s) \<le> 20
   \<and> (\<forall>x \<in> set (relevantChunks q (findChunks ids s)). fst x \<in> set (findChunks ids s))
   \<and> (findChunks ids (s\<lparr>documentChunks := cs\<rparr>) = findChunks ids s \<longrightarrow>
        processRAGQuery zai q ids (s\<lparr>documentChunks := cs\<rparr>)
          = apsnd (\<lambda>t. t\<lparr>documentChunks := cs\<rparr>) (processRAGQuery zai q ids s))"
proof -
  have a: "length (findChunks ids s) \<le> 20" by (simp add: findChunks_def)
  have b: "\<forall>x \<in> set (relevantChunks q (findChunks ids s)). fst x \<in> set (findChunks ids s)"
    using relevant_members by blast
  from a b processRAGQuery_chunks [where ids = ids and s = s and cs = cs and zai = zai and q = q] show ?thesis by blast
qed

theorem processRAGQuery_first_20_witness:
  "findChunks [''d1''] (longManualState\<lparr>documentChunks := take 20 longManual\<rparr>)
     = findChunks [''d1''] longManualState
   \<and> relevantChunks ''milk yield'' (findChunks [''d1''] longManualState) \<noteq> []
   \<and> scoreOf (queryKeywords ''milk yield'') (content (longManual ! 20)) = 2
   \<and> fst (processRAGQuery (scriptedZai [Returns (Some ''Answer'')]) ''milk yield'' [''d1'']
            (longManualState\<lparr>documentChunks := take 20 longManual\<rparr>))
       = fst (processRAGQuery (scriptedZai [Returns (Some ''Answer'')]) ''milk yield'' [''d1'']
            longManualState)
   \<and> sources (fst (processRAGQuery (scriptedZai [Returns (Some ''Answer'')]) ''milk yield'' [''d1'']
            longManualState))
       = [Source (Document ''manual.pdf'' 0) None, Source (Document ''manual.pdf'' 1) None,
          Source (Document ''manual.pdf'' 2) None, Source (Document ''manual.pdf'' 3) None,
          Source (Document ''manual.pdf'' 4) None]"
proof -
  have h: "findChunks [''d1''] (longManualState\<lparr>documentChunks := take 20 longManual\<rparr>)
     = findChunks [''d1''] longManualState"
    by code_simp
  have n: "relevantChunks ''milk yield'' (findChunks [''d1''] longManualState) \<noteq> []"
    by code_simp
  have v1: "scoreOf (queryKeywords ''milk yield'') (content (longManual ! 20)) = 2"
    by code_simp
  have v2: "sources (fst (processRAGQuery (scriptedZai [Returns (Some ''Answer'')]) ''milk yield'' [''d1'']
            longManualState))
       = [Source (Document ''manual.pdf'' 0) None, Source (Document ''manual.pdf'' 1) None,
          Source (Document ''manual.pdf'' 2) None, Source (Document ''manual.pdf'' 3) None,
          Source (Document ''manual.pdf'' 4) None]"
    by code_simp
  from processRAGQuery_first_20 [where ids = "[''d1'']" and s = longManualState
         and q = "''milk yield''" and cs = "take 20 longManual"
         and zai = "scriptedZai [Returns (Some ''Answer'')]"] h
  have "processRAGQuery (scriptedZai [Returns (Some ''Answer'')]) ''milk yield'' [''d1'']
            (longManualState\<lparr>documentChunks := take 20 longManual\<rparr>)
       = apsnd (\<lambda>t. t\<lparr>documentChunks := take 20 longManual\<rparr>)
           (processRAGQuery (scriptedZai [Returns (Some ''Answer'')]) ''milk yield'' [''d1'']
              longManualState)"
    by blast
  then have "fst (processRAGQuery (scriptedZai [Returns (Some ''Answer'')]) ''milk yield'' [''d1'']
            (longManualState\<lparr>documentChunks := take 20 longManual\<rparr>))
       = fst (processRAGQuery (scriptedZai [Returns (Some ''Answer'')]) ''milk yield'' [''d1'']
            longManualState)"
    by simp
  with h n v1 v2 show ?thesis by blast
qed

section \<open>The cache of the web-search path\<close>

lemma answerFromSearch_frame:
  "webSearchCache (snd (answerFromSearch zai q rs s)) = webSearchCache s"
  "searches (snd (answerFromSearch zai q rs s)) = searches s"
  "clockReads (snd (answerFromSearch zai q rs s)) = clockReads s"
  by (simp_all add: answerFromSearch_def chatCompletionsCreate_def split: outcome.splits)

lemma processWebSearch_hit:
  assumes "webSearchCache s q = Some e" and "dateNow zai (clockReads s) - searchedAt e < 3600000"
  shows "processWebSearch zai q s
     = answerFromSearch zai q (results e)
         (s\<lparr>clockReads := Suc (clockReads s),
            webSearchCache := (webSearchCache s)(q \<mapsto> e\<lparr>hitCount := hitCount e + 1\<rparr>)\<rparr>)"
  using assms by (simp add: processWebSearch_def now_def)

text \<open>
  C6. When the cache has a row for the exact query and the clock reads less than
  3600000 milliseconds after the row's timestamp, the answer is made from the row's
  result list as it is, no external search is requested, and the cache afterwards is the
  old cache with this row's hit counter increased by 1, its result list and its timestamp
  as before.
\<close>

theorem processWebSearch_cache_hit:
  assumes "webSearchCache s q = Some e"
    and "dateNow zai (clockReads s) - searchedAt e < 3600000"
  shows "processWebSearch zai q s
           = answerFromSearch zai q (results e)
               (s\<lparr>clockReads := Suc (clockReads s),
                  webSearchCache := (webSearchCache s)(q \<mapsto> e\<lparr>hitCount := hitCount e + 1\<rparr>)\<rparr>)
     \<and> webSearchCache (snd (processWebSearch zai q s))
           = (webSearchCache s)(q \<mapsto>
               \<lparr>results = results e, searchedAt = searchedAt e, hitCount = hitCount e + 1\<rparr>)
     \<and> searches (snd (processWebSearch zai q s)) = searches s"
proof -
  have e: "e\<lparr>hitCount := hitCount e + 1\<rparr>
         = \<lparr>results = results e, searchedAt = searchedAt e, hitCount = hitCount e + 1\<rparr>"
    by simp
  show ?thesis
    unfolding processWebSearch_hit [OF assms] answerFromSearch_frame e by simp
qed

theorem processWebSearch_cache_hit_witness:
  "webSearchCache (cachedState 4000000) ''milk prices''
     = Some \<lparr>results = [oldPrices], searchedAt = 4000000, hitCount = 3\<rparr>
   \<and> dateNow (scriptedZai [Returns (Some ''Prices rose'')]) (clockReads (cachedState 4000000))
       - 4000000 < 3600000
   \<and> webSearchCache (snd (processWebSearch (scriptedZai [Returns (Some ''Prices rose'')])
                            ''milk prices'' (cachedState 4000000))) ''milk prices''
       = Some \<lparr>results = [oldPrices], searchedAt = 4000000, hitCount = 4\<rparr>
   \<and> searches (snd (processWebSearch (scriptedZai [Returns (Some ''Prices rose'')])
                      ''milk prices'' (cachedState 4000000))) = []
   \<and> fst (processWebSearch (scriptedZai [Returns (Some ''Prices rose'')])
            ''milk prices'' (cachedState 4000000))
       = \<lparr>response = ''Prices rose'',
          sources = [Source (WebSearch ''Milk prices'' ''https://example.org/prices'') None]\<rparr>"
proof -
  let ?zai = "scriptedZai [Returns (Some ''Prices rose'')]"
  let ?e = "\<lparr>results = [oldPrices], searchedAt = 4000000, hitCount = 3\<rparr>"
  have h1: "webSearchCache (cachedState 4000000) ''milk prices'' = Some ?e"
    by (simp add: cachedState_def initialState_def)
  have h2: "dateNow ?zai (clockReads (cachedState 4000000)) - searchedAt ?e < 3600000"
    by (simp add: cachedState_def initialState_def scriptedZai_def)
  have v: "fst (processWebSearch ?zai ''milk prices'' (cachedState 4000000))
       = \<lparr>response = ''Prices rose'',
          sources = [Source (WebSearch ''Milk prices'' ''https://example.org/prices'') None]\<rparr>"
    by code_simp
  have s0: "searches (cachedState 4000000) = []"
    by (simp add: cachedState_def initialState_def)
  from processWebSearch_cache_hit [OF h1 h2]
  have a: "webSearchCache (snd (processWebSearch ?zai ''milk prices'' (cachedState 4000000)))
           = (webSearchCache (cachedState 4000000))(''milk prices'' \<mapsto>
               \<lparr>results = results ?e, searchedAt = searchedAt ?e, hitCount = hitCount ?e + 1\<rparr>)"
    and b: "searches (snd (processWebSearch ?zai ''milk prices'' (cachedState 4000000)))
           = searches (cachedState 4000000)"
    by blast+
  from h2 have h2': "dateNow ?zai (clockReads (cachedState 4000000)) - 4000000 < 3600000"
    by simp
  show ?thesis unfolding a b s0 using h1 h2' v by simp
qed

lemma cacheEntry_overwrite:
  "(old :: cacheEntry)\<lparr>results := a, searchedAt := b, hitCount := c\<rparr>
     = \<lparr>results = a, searchedAt = b, hitCount = c\<rparr>"
  by (cases old) simp

lemma freshSearch_effects:
  "searches (snd (freshSearch zai q cached s)) = searches s @ [(''dairy farming '' @ q, 5)]"
  "functionsInvoke zai (length (searches s)) (''dairy farming '' @ q) 5 = Returns res \<Longrightarrow>
     webSearchCache (snd (freshSearch zai q cached s))
       = (webSearchCache s)(q \<mapsto>
           \<lparr>results = (case res of None \<Rightarrow> [] | Some rs \<Rightarrow> rs),
            searchedAt = dateNow zai (clockReads s), hitCount = 1\<rparr>)"
  "functionsInvoke zai (length (searches s)) (''dairy farming '' @ q) 5 = Returns res \<Longrightarrow>
     clockReads (snd (freshSearch zai q cached s)) = Suc (clockReads s)"
  by (simp_all add: freshSearch_def invokeWebSearch_def now_def webSearchError_def
        answerFromSearch_frame createdCacheEntry_def cacheEntry_overwrite Let_def
        split: outcome.splits option.splits)

text \<open>
  C7. When the cache has no row for the query, or the clock reads at least 3600000
  milliseconds after the row's timestamp, one external search is requested, for 5 results
  and with the query prefixed by \<^verbatim>\<open>dairy farming\<close>. When that search returns, the
  cache afterwards has, for this query, the row with the new result list (the empty list
  when the search returned nothing), the latest reading of the clock as timestamp, and
  the hit counter 1.
\<close>

theorem processWebSearch_fresh_search:
  assumes "webSearchCache s q = None
           \<or> (\<exists>e. webSearchCache s q = Some e
                  \<and> 3600000 \<le> dateNow zai (clockReads s) - searchedAt e)"
  shows "searches (snd (processWebSearch zai q s)) = searches s @ [(''dairy farming '' @ q, 5)]
     \<and> (\<forall>res. functionsInvoke zai (length (searches s)) (''dairy farming '' @ q) 5 = Returns res \<longrightarrow>
           0 < clockReads (snd (processWebSearch zai q s))
           \<and> webSearchCache (snd (processWebSearch zai q s))
               = (webSearchCache s)(q \<mapsto>
                   \<lparr>results = (case res of None \<Rightarrow> [] | Some rs \<Rightarrow> rs),
                    searchedAt = dateNow zai (clockReads (snd (processWebSearch zai q s)) - 1),
                    hitCount = 1\<rparr>))"
  using assms
proof
  assume "webSearchCache s q = None"
  then have "processWebSearch zai q s = freshSearch zai q None s"
    by (simp add: processWebSearch_def)
  then show ?thesis by (simp add: freshSearch_effects)
next
  assume "\<exists>e. webSearchCache s q = Some e \<and> 3600000 \<le> dateNow zai (clockReads s) - searchedAt e"
  then obtain e where e: "webSearchCache s q = Some e"
      "3600000 \<le> dateNow zai (clockReads s) - searchedAt e" by blast
  then have "processWebSearch zai q s
      = freshSearch zai q (Some e) (s\<lparr>clockReads := Suc (clockReads s)\<rparr>)"
    by (simp add: processWebSearch_def now_def)
  then show ?thesis by (simp add: freshSearch_effects)
qed


theorem processWebSearch_fresh_search_witness:
  "webSearchCache (cachedState 1000000) ''milk prices''
     = Some \<lparr>results = [oldPrices], searchedAt = 1000000, hitCount = 3\<rparr>
   \<and> 3600000 \<le> dateNow (scriptedZai []) (clockReads (cachedState 1000000)) - 1000000
   \<and> searches (snd (processWebSearch (scriptedZai []) ''milk prices'' (cachedState 1000000)))
       = [(''dairy farming milk prices'', 5)]
   \<and> webSearchCache (snd (processWebSearch (scriptedZai []) ''milk prices'' (cachedState 1000000)))
         ''milk prices''
       = Some \<lparr>results = [feedingGuide], searchedAt = 5000001, hitCount = 1\<rparr>"
proof -
  let ?s = "cachedState 1000000"
  let ?e = "\<lparr>results = [oldPrices], searchedAt = 1000000, hitCount = 3\<rparr>"
  have h1: "webSearchCache ?s ''milk prices'' = Some ?e"
    by (simp add: cachedState_def initialState_def)
  have h2: "3600000 \<le> dateNow (scriptedZai []) (clockReads ?s) - searchedAt ?e"
    by (simp add: cachedState_def initialState_def scriptedZai_def)
  from h1 h2 have h: "webSearchCache ?s ''milk prices'' = None
           \<or> (\<exists>e. webSearchCache ?s ''milk prices'' = Some e
                  \<and> 3600000 \<le> dateNow (scriptedZai []) (clockReads ?s) - searchedAt e)"
    by blast
  have r: "functionsInvoke (scriptedZai []) (length (searches ?s)) (''dairy farming '' @ ''milk prices'') 5
           = Returns (Some [feedingGuide])"
    by (simp add: scriptedZai_def feedingGuide_def)
  have c: "clockReads (snd (processWebSearch (scriptedZai []) ''milk prices'' ?s)) = 2"
    by code_simp
  have t: "dateNow (scriptedZai []) (2 - 1) = 5000001"
    by (simp add: scriptedZai_def)
  have s0: "searches ?s = []" by (simp add: cachedState_def initialState_def)
  from processWebSearch_fresh_search [OF h] r
  have "searches (snd (processWebSearch (scriptedZai []) ''milk prices'' ?s))
          = searches ?s @ [(''dairy farming '' @ ''milk prices'', 5)]"
    and "webSearchCache (snd (processWebSearch (scriptedZai []) ''milk prices'' ?s))
          = (webSearchCache ?s)(''milk prices'' \<mapsto>
               \<lparr>results = (case Some [feedingGuide] of None \<Rightarrow> [] | Some rs \<Rightarrow> rs),
                searchedAt = dateNow (scriptedZai [])
                   (clockReads (snd (processWebSearch (scriptedZai []) ''milk prices'' ?s)) - 1),
                hitCount = 1\<rparr>)"
    by blast+
  with h1 h2 c t s0 show ?thesis by simp
qed

section \<open>CSV file selection\<close>

lemma sort_key_head:
  assumes "sort_key f xs = y # ys"
  shows "y \<in> set xs \<and> (\<forall>x \<in> set xs. f y \<le> f x)"
proof -
  have "sorted (map f (sort_key f xs))" by (rule sorted_sort_key)
  with assms have "\<forall>x \<in> set ys. f y \<le> f x" by simp
  moreover have "set xs = set (y # ys)" using assms set_sort by metis
  ultimately show ?thesis by auto
qed

lemma findFirstFarmDataFile_Some:
  assumes "findFirstFarmDataFile ids s = Some f"
  shows "f \<in> set (farmDataFiles s) \<and> fileId f \<in> set ids
     \<and> (\<forall>g \<in> set (farmDataFiles s). fileId g \<in> set ids \<longrightarrow> uploadedAt g \<le> uploadedAt f)"
proof -
  let ?m = "filter (\<lambda>f. fileId f \<in> set ids) (farmDataFiles s)"
  from assms obtain rest where "sort_key (\<lambda>f. - uploadedAt f) ?m = f # rest"
    by (auto simp: findFirstFarmDataFile_def split: list.splits)
  from sort_key_head [OF this] show ?thesis by auto
qed

lemma findFirstFarmDataFile_exists:
  assumes "g \<in> set (farmDataFiles s)" "fileId g \<in> set ids"
  shows "\<exists>f. findFirstFarmDataFile ids s = Some f"
proof -
  let ?m = "filter (\<lambda>f. fileId f \<in> set ids) (farmDataFiles s)"
  from assms have "?m \<noteq> []" by (auto simp: filter_empty_conv)
  then have "sort_key (\<lambda>f. - uploadedAt f) ?m \<noteq> []"
    by (metis length_0_conv length_sort)
  then obtain y ys where "sort_key (\<lambda>f. - uploadedAt f) ?m = y # ys"
    by (cases "sort_key (\<lambda>f. - uploadedAt f) ?m") blast+
  then show ?thesis
    unfolding findFirstFarmDataFile_def by simp
qed

lemma processCSVQuery_runs:
  assumes "findFirstFarmDataFile ids s = Some f"
  shows "execs (snd (processCSVQuery zai q ids s)) = execs s @ [(filePath f, q)]"
    and "sources (fst (processCSVQuery zai q ids s)) = []
         \<or> sources (fst (processCSVQuery zai q ids s)) = [Source (CSVAnalysis (fileName f)) None]"
  using assms
  by (simp_all add: processCSVQuery_def runScript_def chatCompletionsCreate_def csvError_def Let_def
        split: outcome.splits prod.splits)

lemma findFirstFarmDataFile_later:
  assumes "a \<in> set (farmDataFiles s)" "b \<in> set (farmDataFiles s)"
    and "distinct (map fileId (farmDataFiles s))" and "uploadedAt a < uploadedAt b"
  shows "findFirstFarmDataFile [fileId a, fileId b] s = Some b"
proof -
  from findFirstFarmDataFile_exists [of b s "[fileId a, fileId b]"] assms(2)
  obtain f where f: "findFirstFarmDataFile [fileId a, fileId b] s = Some f" by auto
  from findFirstFarmDataFile_Some [OF f]
  have mem: "f \<in> set (farmDataFiles s)" and ids: "fileId f = fileId a \<or> fileId f = fileId b"
    and top: "uploadedAt b \<le> uploadedAt f"
    using assms(2) by auto
  from assms(3) have inj: "inj_on fileId (set (farmDataFiles s))" by (simp add: distinct_map)
  from top assms(4) have "f \<noteq> a" by auto
  with inj mem assms(1) have "fileId f \<noteq> fileId a" by (auto dest: inj_onD)
  with ids have "fileId f = fileId b" by simp
  with inj mem assms(2) have "f = b" by (auto dest: inj_onD)
  with f show ?thesis by simp
qed

text \<open>
  C9. When at least one of the supplied identifiers is the identifier of a registered
  file, the file selected is a registered file with a supplied identifier whose
  registration time is at least that of every other such file; the script is run on the
  path of that file, and the source returned, if any, names that file. In particular, for
  the identifiers of two registered files A and B, B registered later than A, the file
  selected is B.
\<close>

theorem processCSVQuery_selects_latest:
  "((\<exists>g \<in> set (farmDataFiles s). fileId g \<in> set ids) \<longrightarrow>
      (\<exists>f. findFirstFarmDataFile ids s = Some f
         \<and> f \<in> set (farmDataFiles s) \<and> fileId f \<in> set ids
         \<and> (\<forall>g \<in> set (farmDataFiles s). fileId g \<in> set ids \<longrightarrow> uploadedAt g \<le> uploadedAt f)
         \<and> execs (snd (processCSVQuery zai q ids s)) = execs s @ [(filePath f, q)]
         \<and> (sources (fst (processCSVQuery zai q ids s)) = []
              \<or> sources (fst (processCSVQuery zai q ids s))
                   = [Source (CSVAnalysis (fileName f)) None])))
   \<and> (\<forall>a b. a \<in> set (farmDataFiles s) \<and> b \<in> set (farmDataFiles s)
          \<and> distinct (map fileId (farmDataFiles s)) \<and> uploadedAt a < uploadedAt b \<longrightarrow>
          findFirstFarmDataFile [fileId a, fileId b] s = Some b)"
proof (intro conjI impI allI)
  assume "\<exists>g \<in> set (farmDataFiles s). fileId g \<in> set ids"
  then obtain f where f: "findFirstFarmDataFile ids s = Some f"
    using findFirstFarmDataFile_exists by blast
  from findFirstFarmDataFile_Some [OF f] processCSVQuery_runs [OF f, of zai q] f
  show "\<exists>f. findFirstFarmDataFile ids s = Some f
         \<and> f \<in> set (farmDataFiles s) \<and> fileId f \<in> set ids
         \<and> (\<forall>g \<in> set (farmDataFiles s). fileId g \<in> set ids \<longrightarrow> uploadedAt g \<le> uploadedAt f)
         \<and> execs (snd (processCSVQuery zai q ids s)) = execs s @ [(filePath f, q)]
         \<and> (sources (fst (processCSVQuery zai q ids s)) = []
              \<or> sources (fst (processCSVQuery zai q ids s))
                   = [Source (CSVAnalysis (fileName f)) None])"
    by blast
next
  fix a b
  assume "a \<in> set (farmDataFiles s) \<and> b \<in> set (farmDataFiles s)
          \<and> distinct (map fileId (farmDataFiles s)) \<and> uploadedAt a < uploadedAt b"
  then show "findFirstFarmDataFile [fileId a, fileId b] s = Some b"
    using findFirstFarmDataFile_later by blast
qed

theorem processCSVQuery_selects_latest_witness:
  "fileA \<in> set (farmDataFiles farmState) \<and> fileB \<in> set (farmDataFiles farmState)
   \<and> distinct (map fileId (farmDataFiles farmState))
   \<and> uploadedAt fileA < uploadedAt fileB
   \<and> findFirstFarmDataFile [''A'', ''B''] farmState = Some fileB
   \<and> execs (snd (processCSVQuery (scriptedZai [Returns (Some ''Three rows'')])
                    ''average milk'' [''A'', ''B''] farmState))
       = [(''/uploads/2-herd-2024.csv'', ''average milk'')]
   \<and> sources (fst (processCSVQuery (scriptedZai [Returns (Some ''Three rows'')])
                    ''average milk'' [''A'', ''B''] farmState))
       = [Source (CSVAnalysis ''herd-2024.csv'') None]"
proof -
  let ?zai = "scriptedZai [Returns (Some ''Three rows'')]"
  have h: "fileA \<in> set (farmDataFiles farmState) \<and> fileB \<in> set (farmDataFiles farmState)
          \<and> distinct (map fileId (farmDataFiles farmState)) \<and> uploadedAt fileA < uploadedAt fileB"
    by (simp add: farmState_def initialState_def fileA_def fileB_def)
  have ids: "[fileId fileA, fileId fileB] = [''A'', ''B'']"
    by (simp add: fileA_def fileB_def)
  have g: "\<exists>g \<in> set (farmDataFiles farmState). fileId g \<in> set [''A'', ''B'']"
    using h ids by (metis list.set_intros(1))
  from processCSVQuery_selects_latest [where s = farmState and ids = "[''A'', ''B'']"
         and zai = ?zai and q = "''average milk''"] h ids
  have sel: "findFirstFarmDataFile [''A'', ''B''] farmState = Some fileB"
    by metis
  from processCSVQuery_selects_latest [where s = farmState and ids = "[''A'', ''B'']"
         and zai = ?zai and q = "''average milk''"] g sel
  have ex: "execs (snd (processCSVQuery ?zai ''average milk'' [''A'', ''B''] farmState))
       = execs farmState @ [(filePath fileB, ''average milk'')]"
    by auto
  have e0: "execs farmState @ [(filePath fileB, ''average milk'')]
       = [(''/uploads/2-herd-2024.csv'', ''average milk'')]"
    by (simp add: farmState_def initialState_def fileB_def)
  have v: "sources (fst (processCSVQuery ?zai ''average milk'' [''A'', ''B''] farmState))
       = [Source (CSVAnalysis ''herd-2024.csv'') None]"
    by code_simp
  from h sel ex e0 v show ?thesis by simp
qed

section \<open>Classification\<close>

lemma analyzeQueryType_fst:
  "fst (analyzeQueryType zai q d c s)
     = (case completionsCreate zai (length (completions s))
               (classifierMessages q (length d) (length c)) of
          Throws msg \<Rightarrow> ''general''
        | Returns None \<Rightarrow> ''general''
        | Returns (Some out) \<Rightarrow>
            (if toLowerCase (trim out) = [] then ''general'' else toLowerCase (trim out)))"
  by (simp add: analyzeQueryType_def chatCompletionsCreate_def
           split: outcome.splits option.splits)

lemma processQuery_label:
  assumes "processQuery zai q d c s = (Returns r, s')"
  shows "queryType r \<in> set strategyLabels"
    and "fst (analyzeQueryType zai q d c s) \<notin> set strategyLabels \<Longrightarrow>
           queryType r = ''general'' \<and> sources r = []"
  using assms
  by (auto simp: processQuery_def labelled_def strategyLabels_def
           split: prod.splits if_splits outcome.splits)

text \<open>
  C1, as stated, fails. When the completion returns \<^verbatim>\<open>" Banana "\<close>, the classifier
  returns \<^verbatim>\<open>banana\<close>, which is none of the five labels.
\<close>

theorem analyzeQueryType_unrecognized_output:
  "fst (analyzeQueryType (scriptedZai [Returns (Some '' Banana '')]) ''hello'' [] [] initialState)
     = ''banana''
   \<and> ''banana'' \<notin> set strategyLabels"
  by code_simp

text \<open>
  C1, amended. The classifier never passes a failure on: it returns \<^verbatim>\<open>general\<close> when
  the completion call throws, when it yields no content, and when the content is empty
  after trimming; otherwise it returns the trimmed and lowercased content as it is, whether
  or not that is one of the five labels. The dispatcher handles every label other than
  \<^verbatim>\<open>csv_analysis\<close>, \<^verbatim>\<open>rag\<close>, \<^verbatim>\<open>web_search\<close> and \<^verbatim>\<open>hybrid\<close> as
  \<^verbatim>\<open>general\<close>, so the strategy of a processed query is always one of the five
  labels, and it is \<^verbatim>\<open>general\<close>, with no sources, for an output that is not a label.
\<close>

theorem analyzeQueryType_label:
  "fst (analyzeQueryType zai q d c s)
     = (case completionsCreate zai (length (completions s))
               (classifierMessages q (length d) (length c)) of
          Throws msg \<Rightarrow> ''general''
        | Returns None \<Rightarrow> ''general''
        | Returns (Some out) \<Rightarrow>
            (if toLowerCase (trim out) = [] then ''general'' else toLowerCase (trim out)))
   \<and> (\<forall>r s'. processQuery zai q d c s = (Returns r, s') \<longrightarrow>
         queryType r \<in> set strategyLabels
         \<and> (fst (analyzeQueryType zai q d c s) \<notin> set strategyLabels \<longrightarrow>
              queryType r = ''general'' \<and> sources r = []))"
  using analyzeQueryType_fst processQuery_label by blast

theorem analyzeQueryType_label_witness:
  "fst (analyzeQueryType (scriptedZai [Returns (Some '' Banana ''), Returns (Some ''Hello'')])
          ''hello'' [] [] initialState) = ''banana''
   \<and> fst (analyzeQueryType (scriptedZai [Throws ''model offline'']) ''hello'' [] [] initialState)
       = ''general''
   \<and> fst (analyzeQueryType (scriptedZai [Returns (Some ''  '')]) ''hello'' [] [] initialState)
       = ''general''
   \<and> fst (processQuery (scriptedZai [Returns (Some '' Banana ''), Returns (Some ''Hello'')])
            ''hello'' [] [] initialState)
       = Returns \<lparr>response = ''Hello'', sources = [], queryType = ''general''\<rparr>
   \<and> ''general'' \<in> set strategyLabels"
proof -
  let ?zai = "scriptedZai [Returns (Some '' Banana ''), Returns (Some ''Hello'')]"
  let ?r = "\<lparr>response = ''Hello'', sources = [], queryType = ''general''\<rparr>"
  have a: "fst (analyzeQueryType ?zai ''hello'' [] [] initialState) = ''banana''"
    by code_simp
  have b: "fst (analyzeQueryType (scriptedZai [Throws ''model offline'']) ''hello'' [] [] initialState)
       = ''general''"
    by code_simp
  have c: "fst (analyzeQueryType (scriptedZai [Returns (Some ''  '')]) ''hello'' [] [] initialState)
       = ''general''"
    by code_simp
  have p: "fst (processQuery ?zai ''hello'' [] [] initialState) = Returns ?r"
    by code_simp
  then have "processQuery ?zai ''hello'' [] [] initialState
       = (Returns ?r, snd (processQuery ?zai ''hello'' [] [] initialState))"
    by (metis prod.collapse)
  with analyzeQueryType_label [where zai = ?zai and q = "''hello''" and d = "[]" and c = "[]"
         and s = initialState]
  have "queryType ?r \<in> set strategyLabels" by blast
  with a b c p show ?thesis by simp
qed

section \<open>Synthesis in the hybrid path\<close>

text \<open>
  C2, as stated, fails. With a completion client that rejects the synthesis call, the
  document path has answered \<^verbatim>\<open>From the manual\<close>, and the hybrid path returns the
  answer and the sources of a further run of the web-search path.
\<close>

theorem processHybridQuery_synthesis_rejected:
  "completionsCreate offlineAtSynthesis 2
     (hybridMessages ''milk yield cow'' ''From the manual'' ''From the web'') = Throws ''model offline''
   \<and> response (fst (processRAGQuery offlineAtSynthesis ''milk yield cow'' [''d1''] herdState))
       = ''From the manual''
   \<and> fst (processHybridQuery offlineAtSynthesis ''milk yield cow'' [''d1''] herdState)
       = \<lparr>response = ''From the web again'',
          sources = [Source (WebSearch ''Feeding guide'' ''https://example.org/feeding'') None]\<rparr>"
  by code_simp

text \<open>
  C2, amended. In the hybrid path, after the document path and the web-search path have
  run: when the synthesis call returns no content or empty content, the answer is the
  document path's answer, unsynthesized, with the sources of both paths, those of the
  document path marked high and those of the web-search path marked medium; when the
  synthesis call throws, the hybrid path returns what a further run of the web-search
  path returns for the query.
\<close>

theorem processHybridQuery_synthesis:
  assumes "processRAGQuery zai q ids s = (ragResult, s1)"
    and "processWebSearch zai q s1 = (webResult, s2)"
  shows "(\<forall>c. completionsCreate zai (length (completions s2))
                 (hybridMessages q (response ragResult) (response webResult)) = Returns c
              \<and> (c = None \<or> c = Some []) \<longrightarrow>
            fst (processHybridQuery zai q ids s)
              = \<lparr>response = response ragResult,
                 sources = map (withPriority ''high'') (sources ragResult)
                         @ map (withPriority ''medium'') (sources webResult)\<rparr>)
       \<and> (\<forall>msg. completionsCreate zai (length (completions s2))
                 (hybridMessages q (response ragResult) (response webResult)) = Throws msg \<longrightarrow>
            processHybridQuery zai q ids s
              = processWebSearch zai q
                  (s2\<lparr>completions := completions s2
                        @ [hybridMessages q (response ragResult) (response webResult)]\<rparr>))"
  using assms
  by (auto simp: processHybridQuery_def chatCompletionsCreate_def Let_def)

theorem processHybridQuery_synthesis_witness:
  "fst (processHybridQuery silentAtSynthesis ''milk yield cow'' [''d1''] herdState)
     = \<lparr>response = ''From the manual'',
        sources = [Source (Document ''manual.pdf'' 3) (Some ''high''),
                   Source (Document ''manual.pdf'' 2) (Some ''high''),
                   Source (Document ''manual.pdf'' 7) (Some ''high''),
                   Source (Document ''manual.pdf'' 8) (Some ''high''),
                   Source (Document ''manual.pdf'' 1) (Some ''high''),
                   Source (WebSearch ''Feeding guide'' ''https://example.org/feeding'') (Some ''medium'')]\<rparr>
   \<and> fst (processHybridQuery offlineAtSynthesis ''milk yield cow'' [''d1''] herdState)
     = \<lparr>response = ''From the web again'',
        sources = [Source (WebSearch ''Feeding guide'' ''https://example.org/feeding'') None]\<rparr>"
proof -
  let ?q = "''milk yield cow''" and ?ids = "[''d1'']"
  let ?rag = "\<lambda>zai. processRAGQuery zai ?q ?ids herdState"
  let ?web = "\<lambda>zai. processWebSearch zai ?q (snd (?rag zai))"
  let ?msgs = "\<lambda>zai. hybridMessages ?q (response (fst (?rag zai))) (response (fst (?web zai)))"
  have r: "?rag zai = (fst (?rag zai), snd (?rag zai))" for zai by simp
  have w: "?web zai = (fst (?web zai), snd (?web zai))" for zai by simp
  have h1: "completionsCreate silentAtSynthesis (length (completions (snd (?web silentAtSynthesis))))
              (?msgs silentAtSynthesis) = Returns None"
    by code_simp
  have h2: "completionsCreate offlineAtSynthesis (length (completions (snd (?web offlineAtSynthesis))))
              (?msgs offlineAtSynthesis) = Throws ''model offline''"
    by code_simp
  have v1: "\<lparr>response = response (fst (?rag silentAtSynthesis)),
             sources = map (withPriority ''high'') (sources (fst (?rag silentAtSynthesis)))
                     @ map (withPriority ''medium'') (sources (fst (?web silentAtSynthesis)))\<rparr>
     = \<lparr>response = ''From the manual'',
        sources = [Source (Document ''manual.pdf'' 3) (Some ''high''),
                   Source (Document ''manual.pdf'' 2) (Some ''high''),
                   Source (Document ''manual.pdf'' 7) (Some ''high''),
                   Source (Document ''manual.pdf'' 8) (Some ''high''),
                   Source (Document ''manual.pdf'' 1) (Some ''high''),
                   Source (WebSearch ''Feeding guide'' ''https://example.org/feeding'') (Some ''medium'')]\<rparr>"
    by code_simp
  have v2: "fst (processWebSearch offlineAtSynthesis ?q
              ((snd (?web offlineAtSynthesis))\<lparr>completions := completions (snd (?web offlineAtSynthesis))
                        @ [?msgs offlineAtSynthesis]\<rparr>))
     = \<lparr>response = ''From the web again'',
        sources = [Source (WebSearch ''Feeding guide'' ''https://example.org/feeding'') None]\<rparr>"
    by code_simp
  from processHybridQuery_synthesis [OF r w, of silentAtSynthesis] h1
  have a: "fst (processHybridQuery silentAtSynthesis ?q ?ids herdState)
     = \<lparr>response = response (fst (?rag silentAtSynthesis)),
             sources = map (withPriority ''high'') (sources (fst (?rag silentAtSynthesis)))
                     @ map (withPriority ''medium'') (sources (fst (?web silentAtSynthesis)))\<rparr>"
    by blast
  from processHybridQuery_synthesis [OF r w, of offlineAtSynthesis] h2
  have b: "processHybridQuery offlineAtSynthesis ?q ?ids herdState
     = processWebSearch offlineAtSynthesis ?q
              ((snd (?web offlineAtSynthesis))\<lparr>completions := completions (snd (?web offlineAtSynthesis))
                        @ [?msgs offlineAtSynthesis]\<rparr>)"
    by blast
  show ?thesis unfolding a b v1 v2 by simp
qed

section \<open>The query log\<close>

text \<open>
  C8 fails on the code. A query classified \<^verbatim>\<open>rag\<close> for which no chunk matches falls
  back to the web-search path: the external search is requested and the sources returned
  are web sources, and yet the row written to the query log has
  \<^verbatim>\<open>triggeredWebSearch\<close> false, because the flag is computed from the strategy label
  alone.
\<close>

theorem POST_log_after_fallback:
  "fst (POST (scriptedZai [Returns (Some ''rag''), Returns (Some ''Answer'')]) strawRequest strawState)
     = Ok200 \<lparr>response = ''Answer'',
              sources = [Source (WebSearch ''Feeding guide'' ''https://example.org/feeding'') None],
              queryType = ''rag''\<rparr>
   \<and> searches (snd (POST (scriptedZai [Returns (Some ''rag''), Returns (Some ''Answer'')])
                     strawRequest strawState))
       = [(''dairy farming milk yield cow'', 5)]
   \<and> map triggeredWebSearch
        (queryLogs (snd (POST (scriptedZai [Returns (Some ''rag''), Returns (Some ''Answer'')])
                          strawRequest strawState)))
       = [False]"
  by code_simp


end
